theory Spec2Isabelle
  imports Complex_Main "HOL-Library.Sublist"
begin

section \<open>Python values, errors and sequencing\<close>

text \<open>
  The partial-geometry cache of \<^verbatim>\<open>src/plotplus.py\<close> (classes \<^verbatim>\<open>MapSet\<close>,
  \<^verbatim>\<open>PartialShapelyFeature\<close>, \<^verbatim>\<open>PartialNaturalEarthFeature\<close>) is embedded below.
  Coordinates are Python numbers; they are modelled as \<^typ>\<open>real\<close>, so the rounding of
  \<^verbatim>\<open>extent[1] - 360.\<close> and NaN are outside the model. Exceptions are values of the type
  \<open>error\<close>; a method that can raise returns \<open>error + 'a\<close> with \<open>Inl\<close> for the exception.
\<close>

datatype error =
    TypeError
  | IndexError
  | FileNotFoundError
  | PermissionError
  | UpstreamError
  | PicklingError
  | UnpicklingError

text \<open>\<^verbatim>\<open>xs[i]\<close> for a literal index \<open>i \<ge> 0\<close>: out of range raises IndexError.\<close>

definition getitem :: "'a list \<Rightarrow> nat \<Rightarrow> error + 'a" where
  "getitem xs i = (if i < length xs then Inr (xs ! i) else Inl IndexError)"

text \<open>
  Calls that read or write a store and may raise: the result is paired with the store
  after the call. \<open>and_then\<close> is Python's statement sequencing (an exception skips the rest).
\<close>

definition ret :: "'a \<Rightarrow> 's \<Rightarrow> (error + 'a) \<times> 's" where
  "ret a s = (Inr a, s)"

definition and_then ::
  "('s \<Rightarrow> (error + 'a) \<times> 's) \<Rightarrow> ('a \<Rightarrow> 's \<Rightarrow> (error + 'b) \<times> 's) \<Rightarrow> 's \<Rightarrow> (error + 'b) \<times> 's" where
  "and_then m k s = (case m s of (Inl e, s') \<Rightarrow> (Inl e, s') | (Inr a, s') \<Rightarrow> k a s')"

section \<open>Collaborators from cartopy\<close>

text \<open>An extent in cartopy's order \<open>(x0, x1, y0, y1)\<close>, i.e. \<open>(lonMin, lonMax, latMin, latMax)\<close>.\<close>

type_synonym box = "real \<times> real \<times> real \<times> real"

text \<open>
  Modelled from the spec: the intersection pass of the upstream provider
  (\<^verbatim>\<open>cartopy.feature.Feature.intersecting_geometries\<close>, reached through \<^verbatim>\<open>super()\<close>), which
  is not code of this repository. Spec section 4.1: "select every geometry from the full
  collection whose extent overlaps region, in the iteration order of the upstream
  collection"; section 6: the intersection predicate is "delegated to the upstream
  provider's existing spatial predicate; not reimplemented". The predicate is the parameter
  \<open>isect\<close>; the extent is read at the indices 0 to 3, so a shorter sequence raises IndexError.
\<close>

definition super_intersecting_geometries ::
  "(box \<Rightarrow> 'g \<Rightarrow> bool) \<Rightarrow> 'g list \<Rightarrow> real list \<Rightarrow> error + 'g list" where
  "super_intersecting_geometries isect all_geoms ext =
     (case ext of
        x0 # x1 # y0 # y1 # _ \<Rightarrow> Inr (filter (isect (x0, x1, y0, y1)) all_geoms)
      | _ \<Rightarrow> Inl IndexError)"

text \<open>
  Modelled from the spec: the upstream geometry provider (\<^verbatim>\<open>ciosr.natural_earth\<close> followed by
  \<^verbatim>\<open>ciosr.Reader(path).geometries()\<close>), not code of this repository. Spec section 6: "given a
  GeometrySource, returns the full ordered collection of geometry objects for that source".
  The store maps \<open>(resolution, category, name)\<close> to the collection; a source without a
  collection raises. Reading leaves the store as it is.
\<close>

type_synonym 'g upstream = "string \<times> string \<times> string \<Rightarrow> 'g list option"

definition natural_earth_geometries ::
  "string \<Rightarrow> string \<Rightarrow> string \<Rightarrow> 'g upstream \<Rightarrow> (error + 'g list) \<times> 'g upstream" where
  "natural_earth_geometries resolution cat nm up =
     (case up (resolution, cat, nm) of
        None \<Rightarrow> (Inl UpstreamError, up)
      | Some gs \<Rightarrow> (Inr gs, up))"

section \<open>Partial features\<close>

text \<open>
  The two classes carry the same two attributes \<^verbatim>\<open>extent\<close> and \<^verbatim>\<open>_geoms\<close>;
  \<^verbatim>\<open>PartialNaturalEarthFeature\<close> has in addition the \<^verbatim>\<open>category\<close>, \<^verbatim>\<open>name\<close> and \<^verbatim>\<open>scale\<close>
  that \<^verbatim>\<open>NaturalEarthFeature.__init__\<close> stores.
\<close>

record 'g PartialShapelyFeature =
  extent :: "real list"
  geoms :: "'g list"

record 'g PartialNaturalEarthFeature = "'g PartialShapelyFeature" +
  category :: string
  name :: string
  scale :: string

text \<open>
  The \<^verbatim>\<open>if\<close>/\<^verbatim>\<open>else\<close> statement that both \<^verbatim>\<open>make_partial\<close> methods end with (lines 1150-1157
  and 1184-1191, the same text): the value assigned to \<^verbatim>\<open>self._geoms\<close>, computed from
  \<^verbatim>\<open>self.extent\<close> and from the collection \<^verbatim>\<open>self.geometries()\<close> iterates over. The chained
  comparison \<^verbatim>\<open>extent[0] < 180 < extent[1]\<close> reads \<^verbatim>\<open>extent[1]\<close> only when the first half holds.
\<close>

definition partial_geoms :: "(box \<Rightarrow> 'g \<Rightarrow> bool) \<Rightarrow> real list \<Rightarrow> 'g list \<Rightarrow> error + 'g list" where
  "partial_geoms isect ext all_geoms =
     (case getitem ext 0 of Inl e \<Rightarrow> Inl e | Inr e0 \<Rightarrow>
      if e0 < 180 then
        (case getitem ext 1 of Inl e \<Rightarrow> Inl e | Inr e1 \<Rightarrow>
         if 180 < e1 then
           (case getitem ext 2 of Inl e \<Rightarrow> Inl e | Inr e2 \<Rightarrow>
           (case getitem ext 3 of Inl e \<Rightarrow> Inl e | Inr e3 \<Rightarrow>
            (let extent1 = [e0, 180, e2, e3];
                 extent2 = [- 180, e1 - 360, e2, e3]
             in (case super_intersecting_geometries isect all_geoms extent1 of
                   Inl e \<Rightarrow> Inl e
                 | Inr r1 \<Rightarrow>
                     (case super_intersecting_geometries isect all_geoms extent2 of
                        Inl e \<Rightarrow> Inl e
                      | Inr r2 \<Rightarrow> Inr (r1 @ r2))))))
         else super_intersecting_geometries isect all_geoms ext)
      else super_intersecting_geometries isect all_geoms ext)"

subsection \<open>PartialShapelyFeature\<close>

definition PartialShapelyFeature_make_partial ::
  "(box \<Rightarrow> 'g \<Rightarrow> bool) \<Rightarrow> 'g PartialShapelyFeature \<Rightarrow> error + 'g PartialShapelyFeature" where
  "PartialShapelyFeature_make_partial isect self =
     (case partial_geoms isect (extent self) (geoms self) of
        Inl e \<Rightarrow> Inl e
      | Inr gs \<Rightarrow> Inr (self\<lparr>geoms := gs\<rparr>))"

text \<open>
  \<^verbatim>\<open>__init__(self, *args, georange=None, **kwargs)\<close>: the parent constructor stores
  \<^verbatim>\<open>tuple(geometries)\<close>; then \<^verbatim>\<open>georange[2:] + georange[:2]\<close>, which raises TypeError on the
  default \<^verbatim>\<open>None\<close>; then \<^verbatim>\<open>make_partial\<close>.
\<close>

definition PartialShapelyFeature_init ::
  "(box \<Rightarrow> 'g \<Rightarrow> bool) \<Rightarrow> 'g list \<Rightarrow> real list option \<Rightarrow> error + 'g PartialShapelyFeature" where
  "PartialShapelyFeature_init isect geometries georange =
     (case georange of
        None \<Rightarrow> Inl TypeError
      | Some g \<Rightarrow>
          PartialShapelyFeature_make_partial isect
            \<lparr>extent = drop 2 g @ take 2 g, geoms = geometries\<rparr>)"

text \<open>
  \<^verbatim>\<open>intersecting_geometries(self, extent)\<close> returns \<^verbatim>\<open>self.geometries()\<close>, which for this class
  is the parent's method, an iterator over \<^verbatim>\<open>self._geoms\<close>.
\<close>

definition PartialShapelyFeature_intersecting_geometries ::
  "'g PartialShapelyFeature \<Rightarrow> real list \<Rightarrow> 'g list" where
  "PartialShapelyFeature_intersecting_geometries self ext = geoms self"

subsection \<open>PartialNaturalEarthFeature\<close>

definition PartialNaturalEarthFeature_make_partial ::
  "(box \<Rightarrow> 'g \<Rightarrow> bool) \<Rightarrow> 'g PartialNaturalEarthFeature \<Rightarrow> 'g upstream \<Rightarrow>
     (error + 'g PartialNaturalEarthFeature) \<times> 'g upstream" where
  "PartialNaturalEarthFeature_make_partial isect self =
     and_then (natural_earth_geometries (scale self) (category self) (name self))
       (\<lambda>all_geoms up.
          let self1 = self\<lparr>geoms := all_geoms\<rparr>
          in case partial_geoms isect (extent self1) (geoms self1) of
               Inl e \<Rightarrow> (Inl e, up)
             | Inr gs \<Rightarrow> (Inr (self1\<lparr>geoms := gs\<rparr>), up))"

definition PartialNaturalEarthFeature_init ::
  "(box \<Rightarrow> 'g \<Rightarrow> bool) \<Rightarrow> string \<Rightarrow> string \<Rightarrow> string \<Rightarrow> real list option \<Rightarrow> 'g upstream \<Rightarrow>
     (error + 'g PartialNaturalEarthFeature) \<times> 'g upstream" where
  "PartialNaturalEarthFeature_init isect cat nm sc georange up =
     (case georange of
        None \<Rightarrow> (Inl TypeError, up)
      | Some g \<Rightarrow>
          PartialNaturalEarthFeature_make_partial isect
            \<lparr>extent = drop 2 g @ take 2 g, geoms = [], category = cat, name = nm, scale = sc\<rparr> up)"

definition geometries :: "'g PartialNaturalEarthFeature \<Rightarrow> 'g list" where
  "geometries self = geoms self"

definition PartialNaturalEarthFeature_intersecting_geometries ::
  "'g PartialNaturalEarthFeature \<Rightarrow> real list \<Rightarrow> 'g list" where
  "PartialNaturalEarthFeature_intersecting_geometries self ext = geometries self"

section \<open>MapSet\<close>

text \<open>
  The attributes of a \<^verbatim>\<open>MapSet\<close>, each \<^verbatim>\<open>None\<close> or a value. The projection and its
  parameters are opaque here.
\<close>

record ('g, 'p, 'q) MapSet =
  proj :: "'p option"
  georange :: "real list option"
  scale :: "string option"
  coastline :: "'g PartialNaturalEarthFeature option"
  country :: "'g PartialNaturalEarthFeature option"
  land :: "'g PartialNaturalEarthFeature option"
  ocean :: "'g PartialNaturalEarthFeature option"
  province :: "'g PartialShapelyFeature option"
  city :: "'g PartialShapelyFeature option"
  county :: "'g PartialShapelyFeature option"
  proj_params :: "'q option"

text \<open>\<^verbatim>\<open>MapSet.__init__\<close>, its keyword arguments in the order of the signature.\<close>

definition MapSet_init ::
  "'p option \<Rightarrow> real list option \<Rightarrow>
   'g PartialNaturalEarthFeature option \<Rightarrow> 'g PartialNaturalEarthFeature option \<Rightarrow>
   'g PartialNaturalEarthFeature option \<Rightarrow> 'g PartialNaturalEarthFeature option \<Rightarrow>
   'g PartialShapelyFeature option \<Rightarrow> 'g PartialShapelyFeature option \<Rightarrow>
   'g PartialShapelyFeature option \<Rightarrow> string option \<Rightarrow> 'q option \<Rightarrow> ('g, 'p, 'q) MapSet" where
  "MapSet_init proj' georange' coastline' country' land' ocean' province' city' county'
       scale' proj_params' =
     \<lparr>proj = proj', georange = georange', scale = scale', coastline = coastline',
      country = country', land = land', ocean = ocean', province = province', city = city',
      county = county', proj_params = proj_params'\<rparr>"

text \<open>
  \<^verbatim>\<open>MapSet.from_natural_earth(georange, scale, proj, coastline, country, land, ocean,
  proj_params)\<close>; the defaults of the signature are \<^verbatim>\<open>scale='50m'\<close>, \<^verbatim>\<open>proj='P'\<close>,
  \<^verbatim>\<open>coastline=True\<close>, \<^verbatim>\<open>country=True\<close>, \<^verbatim>\<open>land=False\<close>, \<^verbatim>\<open>ocean=False\<close>.
\<close>

definition from_natural_earth ::
  "(box \<Rightarrow> 'g \<Rightarrow> bool) \<Rightarrow> real list option \<Rightarrow> string \<Rightarrow> 'p option \<Rightarrow>
   bool \<Rightarrow> bool \<Rightarrow> bool \<Rightarrow> bool \<Rightarrow> 'q option \<Rightarrow> 'g upstream \<Rightarrow>
     (error + ('g, 'p, 'q) MapSet) \<times> 'g upstream" where
  "from_natural_earth isect georange' scale' proj' coastline' country' land' ocean' proj_params' =
     and_then
       (ret (MapSet_init proj' georange' None None None None None None None
               (Some scale') proj_params'))
     (\<lambda>ins. and_then
       (if coastline' then
          and_then
            (PartialNaturalEarthFeature_init isect ''physical'' ''coastline'' scale' georange')
            (\<lambda>f. ret (ins\<lparr>coastline := Some f\<rparr>))
        else ret ins)
     (\<lambda>ins. and_then
       (if country' then
          and_then
            (PartialNaturalEarthFeature_init isect ''cultural'' ''admin_0_boundary_lines_land''
               scale' georange')
            (\<lambda>f. ret (ins\<lparr>country := Some f\<rparr>))
        else ret ins)
     (\<lambda>ins. and_then
       (if land' then
          and_then
            (PartialNaturalEarthFeature_init isect ''physical'' ''land'' scale' georange')
            (\<lambda>f. ret (ins\<lparr>land := Some f\<rparr>))
        else ret ins)
     (\<lambda>ins. and_then
       (if ocean' then
          and_then
            (PartialNaturalEarthFeature_init isect ''physical'' ''ocean'' scale' georange')
            (\<lambda>f. ret (ins\<lparr>ocean := Some f\<rparr>))
        else ret ins)
     ret))))"

section \<open>Saving and loading\<close>

text \<open>
  The Python values that matter here: what \<^verbatim>\<open>pickle.load\<close> can hand back is any object, a
  \<^verbatim>\<open>MapSet\<close> or something else.
\<close>

datatype ('g, 'p, 'q) pyobj =
    PyNone
  | PyMapSet "('g, 'p, 'q) MapSet"

text \<open>
  The file system: the content of each existing path, and the paths that \<^verbatim>\<open>open(..., 'wb')\<close>
  refuses. Bytes are \<^typ>\<open>char\<close>s.
\<close>

record filesystem =
  files :: "string \<Rightarrow> string option"
  unwritable :: "string set"

text \<open>\<^verbatim>\<open>open(filename, 'wb')\<close>: creates the file, or truncates it when it exists.\<close>

definition open_wb :: "string \<Rightarrow> filesystem \<Rightarrow> (error + unit) \<times> filesystem" where
  "open_wb filename fs =
     (if filename \<in> unwritable fs then (Inl PermissionError, fs)
      else (Inr (), fs\<lparr>files := (files fs)(filename \<mapsto> [])\<rparr>))"

text \<open>
  \<^verbatim>\<open>MapSet.save\<close>. \<^verbatim>\<open>pickle.dump\<close> belongs to the Python library and is the parameter
  \<open>pickle_dump\<close>: the bytes it writes to the stream, and the exception it raises, if any.
  Leaving the \<^verbatim>\<open>with\<close> block closes the file on both paths, so what was written is in it.
\<close>

definition save ::
  "(('g, 'p, 'q) pyobj \<Rightarrow> string \<times> error option) \<Rightarrow> ('g, 'p, 'q) MapSet \<Rightarrow> string \<Rightarrow>
     filesystem \<Rightarrow> (error + unit) \<times> filesystem" where
  "save pickle_dump self filename =
     and_then (open_wb filename)
       (\<lambda>f fs. case pickle_dump (PyMapSet self) of
          (written, exc) \<Rightarrow>
            ((case exc of None \<Rightarrow> Inr () | Some e \<Rightarrow> Inl e),
             fs\<lparr>files := (files fs)(filename \<mapsto> written)\<rparr>))"

text \<open>
  \<^verbatim>\<open>MapSet.load\<close>. \<^verbatim>\<open>open(filename, 'rb')\<close> raises FileNotFoundError when the path does not
  exist; \<^verbatim>\<open>pickle.load\<close> is the parameter \<open>pickle_load\<close>, from the bytes of the file to the
  object it builds or the exception it raises. What it returns is returned as it is.
\<close>

definition load ::
  "(string \<Rightarrow> error + ('g, 'p, 'q) pyobj) \<Rightarrow> string \<Rightarrow> filesystem \<Rightarrow> error + ('g, 'p, 'q) pyobj" where
  "load pickle_load filename fs =
     (case files fs filename of
        None \<Rightarrow> Inl FileNotFoundError
      | Some bytes \<Rightarrow> pickle_load bytes)"

section \<open>An instance of the spatial predicate\<close>

text \<open>
  Modelled from the spec: section 6 describes each geometry as "exposing an
  extent/bounding-box usable for intersection testing". For concrete runs a geometry is given
  by its bounding box \<open>(xmin, xmax, ymin, ymax)\<close> and the predicate is the overlap of two
  closed rectangles; the query rectangle is the one spanned by the corners it is given,
  whichever way round they come.
\<close>

fun box_intersects :: "box \<Rightarrow> box \<Rightarrow> bool" where
  "box_intersects (x0, x1, y0, y1) (gx0, gx1, gy0, gy1) =
     (min x0 x1 \<le> gx1 \<and> gx0 \<le> max x0 x1 \<and> min y0 y1 \<le> gy1 \<and> gy0 \<le> max y0 y1)"

text \<open>Three geometries: one across the whole globe, one east of 170E, one off East Asia.\<close>

definition sample_geoms :: "box list" where
  "sample_geoms = [(- 180, 180, 10, 20), (172, 178, 5, 8), (110, 130, 20, 30)]"

definition sample_borders :: "box list" where
  "sample_borders = [(121, 122, 21, 26), (- 70, - 60, - 30, - 20)]"

definition sample_upstream :: "box upstream" where
  "sample_upstream =
     (\<lambda>k. if k = (''50m'', ''physical'', ''coastline'') then Some sample_geoms
          else if k = (''50m'', ''cultural'', ''admin_0_boundary_lines_land'')
          then Some sample_borders
          else None)"

section \<open>Instances for saving and loading\<close>

text \<open>The map set of the class's docstring: \<^verbatim>\<open>georange = 15, 35, 110, 135\<close>, default flags.\<close>

definition sample_mapset :: "(box, string, unit) MapSet" where
  "sample_mapset =
     \<lparr>proj = Some ''P'', georange = Some [15, 35, 110, 135], scale = Some ''50m'',
      coastline = Some \<lparr>extent = [110, 135, 15, 35],
                        geoms = [(- 180, 180, 10, 20), (110, 130, 20, 30)],
                        category = ''physical'', name = ''coastline'',
                        PartialNaturalEarthFeature.scale = ''50m''\<rparr>,
      country = Some \<lparr>extent = [110, 135, 15, 35],
                      geoms = [(121, 122, 21, 26)],
                      category = ''cultural'', name = ''admin_0_boundary_lines_land'',
                      PartialNaturalEarthFeature.scale = ''50m''\<rparr>,
      land = None, ocean = None, province = None, city = None, county = None,
      proj_params = None\<rparr>"

text \<open>
  A stand-in for the pickle library in concrete runs. It serialises two objects:
  \<^verbatim>\<open>None\<close>, as the two bytes \<^verbatim>\<open>N.\<close> (the opcodes NONE and STOP, which is what pickle
  writes for it at protocol 0), and \<open>sample_mapset\<close>, as \<^verbatim>\<open>M.\<close>. On any other object
  \<open>sample_pickle_dump\<close> raises before it has written a byte, as \<^verbatim>\<open>pickle.dump\<close> does on an
  object with an attribute it cannot serialise; on any other bytes \<open>sample_pickle_load\<close>
  raises.
\<close>

definition sample_pickle_dump :: "(box, string, unit) pyobj \<Rightarrow> string \<times> error option" where
  "sample_pickle_dump obj =
     (case obj of
        PyNone \<Rightarrow> (''N.'', None)
      | PyMapSet m \<Rightarrow> if m = sample_mapset then (''M.'', None) else ([], Some PicklingError))"

definition sample_pickle_load :: "string \<Rightarrow> error + (box, string, unit) pyobj" where
  "sample_pickle_load bytes =
     (if bytes = ''N.'' then Inr PyNone
      else if bytes = ''M.'' then Inr (PyMapSet sample_mapset)
      else Inl UnpicklingError)"

text \<open>
  A file system with an earlier cache at \<^verbatim>\<open>cache.pkl\<close>, a pickled \<^verbatim>\<open>None\<close> at \<^verbatim>\<open>none.pkl\<close>,
  bytes that are no pickle at \<^verbatim>\<open>garbage.pkl\<close>, and a path that cannot be written.
\<close>

definition sample_fs :: filesystem where
  "sample_fs =
     \<lparr>files = [''cache.pkl'' \<mapsto> ''M.'', ''none.pkl'' \<mapsto> ''N.'', ''garbage.pkl'' \<mapsto> ''xyz''],
      unwritable = {''locked.pkl''}\<rparr>"

section \<open>Lemmas on the intersection pass\<close>

lemma count_list_filter:
  "count_list (filter P xs) x = (if P x then count_list xs x else 0)"
  by (induction xs) auto

lemma partial_geoms_straddle:
  assumes "lonMin < 180" and "180 < lonMax"
  shows "partial_geoms isect (lonMin # lonMax # latMin # latMax # rest) gs =
           Inr (filter (isect (lonMin, 180, latMin, latMax)) gs @
                filter (isect (- 180, lonMax - 360, latMin, latMax)) gs)"
  using assms
  by (simp add: partial_geoms_def getitem_def super_intersecting_geometries_def)

lemma partial_geoms_single:
  assumes "\<not> (lonMin < 180 \<and> 180 < lonMax)"
  shows "partial_geoms isect (lonMin # lonMax # latMin # latMax # rest) gs =
           Inr (filter (isect (lonMin, lonMax, latMin, latMax)) gs)"
  using assms
  by (auto simp add: partial_geoms_def getitem_def super_intersecting_geometries_def)

lemma init_shapely_straddle:
  assumes "lonMin < 180" and "180 < lonMax"
  shows "PartialShapelyFeature_init isect gs (Some [latMin, latMax, lonMin, lonMax]) =
           Inr \<lparr>extent = [lonMin, lonMax, latMin, latMax],
                geoms = filter (isect (lonMin, 180, latMin, latMax)) gs @
                        filter (isect (- 180, lonMax - 360, latMin, latMax)) gs\<rparr>"
  using assms
  by (simp add: PartialShapelyFeature_init_def PartialShapelyFeature_make_partial_def
      partial_geoms_straddle)

lemma init_natural_earth_straddle:
  assumes "lonMin < 180" and "180 < lonMax" and "up (sc, cat, nm) = Some gs"
  shows "PartialNaturalEarthFeature_init isect cat nm sc (Some [latMin, latMax, lonMin, lonMax]) up =
           (Inr \<lparr>extent = [lonMin, lonMax, latMin, latMax],
                 geoms = filter (isect (lonMin, 180, latMin, latMax)) gs @
                         filter (isect (- 180, lonMax - 360, latMin, latMax)) gs,
                 category = cat, name = nm, PartialNaturalEarthFeature.scale = sc\<rparr>, up)"
  using assms
  by (simp add: PartialNaturalEarthFeature_init_def PartialNaturalEarthFeature_make_partial_def
      and_then_def natural_earth_geometries_def partial_geoms_straddle)

lemma init_shapely_single:
  assumes "\<not> (lonMin < 180 \<and> 180 < lonMax)"
  shows "PartialShapelyFeature_init isect gs (Some [latMin, latMax, lonMin, lonMax]) =
           Inr \<lparr>extent = [lonMin, lonMax, latMin, latMax],
                geoms = filter (isect (lonMin, lonMax, latMin, latMax)) gs\<rparr>"
  using assms
  by (simp add: PartialShapelyFeature_init_def PartialShapelyFeature_make_partial_def
      partial_geoms_single)

lemma init_natural_earth_single:
  assumes "\<not> (lonMin < 180 \<and> 180 < lonMax)" and "up (sc, cat, nm) = Some gs"
  shows "PartialNaturalEarthFeature_init isect cat nm sc (Some [latMin, latMax, lonMin, lonMax]) up =
           (Inr \<lparr>extent = [lonMin, lonMax, latMin, latMax],
                 geoms = filter (isect (lonMin, lonMax, latMin, latMax)) gs,
                 category = cat, name = nm, PartialNaturalEarthFeature.scale = sc\<rparr>, up)"
  using assms
  by (simp add: PartialNaturalEarthFeature_init_def PartialNaturalEarthFeature_make_partial_def
      and_then_def natural_earth_geometries_def partial_geoms_single)

section \<open>The antimeridian split\<close>

text \<open>
  Claim C1. For a region that straddles the antimeridian (\<open>lonMin < 180 < lonMax\<close>) the
  constructor of either class runs the intersection pass against \<open>[lonMin, 180]\<close> and against
  \<open>[-180, lonMax - 360]\<close>, both with the latitude bounds of the region, and stores the matches
  of the first pass followed by the matches of the second. Nothing is removed: a geometry
  that overlaps both sub-regions occurs in the stored sequence twice as often as in the
  collection, hence at least twice when the collection holds it.
\<close>

theorem build_antimeridian_split:
  assumes "lonMin < 180" and "180 < lonMax"
  shows "PartialShapelyFeature_init isect gs (Some [latMin, latMax, lonMin, lonMax]) =
           Inr \<lparr>extent = [lonMin, lonMax, latMin, latMax],
                geoms = filter (isect (lonMin, 180, latMin, latMax)) gs @
                        filter (isect (- 180, lonMax - 360, latMin, latMax)) gs\<rparr>
       \<and> (up (sc, cat, nm) = Some gs \<longrightarrow>
            PartialNaturalEarthFeature_init isect cat nm sc
                (Some [latMin, latMax, lonMin, lonMax]) up =
              (Inr \<lparr>extent = [lonMin, lonMax, latMin, latMax],
                    geoms = filter (isect (lonMin, 180, latMin, latMax)) gs @
                            filter (isect (- 180, lonMax - 360, latMin, latMax)) gs,
                    category = cat, name = nm, PartialNaturalEarthFeature.scale = sc\<rparr>, up))
       \<and> (g \<in> set gs \<and> isect (lonMin, 180, latMin, latMax) g \<and>
            isect (- 180, lonMax - 360, latMin, latMax) g \<longrightarrow>
            count_list (filter (isect (lonMin, 180, latMin, latMax)) gs @
                        filter (isect (- 180, lonMax - 360, latMin, latMax)) gs) g =
              2 * count_list gs g
            \<and> 2 \<le> count_list (filter (isect (lonMin, 180, latMin, latMax)) gs @
                        filter (isect (- 180, lonMax - 360, latMin, latMax)) gs) g)"
proof (intro conjI impI)
  show "PartialShapelyFeature_init isect gs (Some [latMin, latMax, lonMin, lonMax]) =
          Inr \<lparr>extent = [lonMin, lonMax, latMin, latMax],
               geoms = filter (isect (lonMin, 180, latMin, latMax)) gs @
                       filter (isect (- 180, lonMax - 360, latMin, latMax)) gs\<rparr>"
    using assms by (rule init_shapely_straddle)
next
  assume "up (sc, cat, nm) = Some gs"
  with assms show "PartialNaturalEarthFeature_init isect cat nm sc
        (Some [latMin, latMax, lonMin, lonMax]) up =
      (Inr \<lparr>extent = [lonMin, lonMax, latMin, latMax],
            geoms = filter (isect (lonMin, 180, latMin, latMax)) gs @
                    filter (isect (- 180, lonMax - 360, latMin, latMax)) gs,
            category = cat, name = nm, PartialNaturalEarthFeature.scale = sc\<rparr>, up)"
    by (rule init_natural_earth_straddle)
next
  assume both: "g \<in> set gs \<and> isect (lonMin, 180, latMin, latMax) g \<and>
    isect (- 180, lonMax - 360, latMin, latMax) g"
  then show twice: "count_list (filter (isect (lonMin, 180, latMin, latMax)) gs @
      filter (isect (- 180, lonMax - 360, latMin, latMax)) gs) g = 2 * count_list gs g"
    by (simp add: count_list_filter)
  from both have "count_list gs g \<noteq> 0"
    by (simp add: count_list_0_iff)
  with twice show "2 \<le> count_list (filter (isect (lonMin, 180, latMin, latMax)) gs @
      filter (isect (- 180, lonMax - 360, latMin, latMax)) gs) g"
    by arith
qed

theorem build_antimeridian_split_witness:
  "(170::real) < 180 \<and> (180::real) < 200
   \<and> PartialShapelyFeature_init box_intersects sample_geoms (Some [0, 30, 170, 200]) =
       Inr \<lparr>extent = [170, 200, 0, 30],
            geoms = [(- 180, 180, 10, 20), (172, 178, 5, 8), (- 180, 180, 10, 20)]\<rparr>
   \<and> sample_upstream (''50m'', ''physical'', ''coastline'') = Some sample_geoms
   \<and> PartialNaturalEarthFeature_init box_intersects ''physical'' ''coastline'' ''50m''
         (Some [0, 30, 170, 200]) sample_upstream =
       (Inr \<lparr>extent = [170, 200, 0, 30],
             geoms = [(- 180, 180, 10, 20), (172, 178, 5, 8), (- 180, 180, 10, 20)],
             category = ''physical'', name = ''coastline'',
             PartialNaturalEarthFeature.scale = ''50m''\<rparr>, sample_upstream)
   \<and> (- 180, 180, 10, 20) \<in> set sample_geoms
   \<and> box_intersects (170, 180, 0, 30) (- 180, 180, 10, 20)
   \<and> box_intersects (- 180, 200 - 360, 0, 30) (- 180, 180, 10, 20)
   \<and> count_list [(- 180, 180, 10, 20), (172, 178, 5, 8), (- 180, 180, 10, 20) :: box]
         (- 180, 180, 10, 20) = 2"
  using build_antimeridian_split [of 170 200 box_intersects sample_geoms 0 30
      sample_upstream "''50m''" "''physical''" "''coastline''" "(- 180, 180, 10, 20)"]
  by (simp add: sample_geoms_def sample_upstream_def)

section \<open>The single pass\<close>

text \<open>
  Claim C2. For a region that does not straddle the antimeridian the constructor of either
  class runs one intersection pass against the region: the stored sequence is the
  collection filtered by the overlap with the region, so it holds exactly the geometries of
  the collection that overlap the region, none that lies outside, in the order of the
  collection.
\<close>

theorem build_single_pass:
  assumes "\<not> (lonMin < 180 \<and> 180 < lonMax)"
  shows "PartialShapelyFeature_init isect gs (Some [latMin, latMax, lonMin, lonMax]) =
           Inr \<lparr>extent = [lonMin, lonMax, latMin, latMax],
                geoms = filter (isect (lonMin, lonMax, latMin, latMax)) gs\<rparr>
       \<and> (up (sc, cat, nm) = Some gs \<longrightarrow>
            PartialNaturalEarthFeature_init isect cat nm sc
                (Some [latMin, latMax, lonMin, lonMax]) up =
              (Inr \<lparr>extent = [lonMin, lonMax, latMin, latMax],
                    geoms = filter (isect (lonMin, lonMax, latMin, latMax)) gs,
                    category = cat, name = nm, PartialNaturalEarthFeature.scale = sc\<rparr>, up))
       \<and> set (filter (isect (lonMin, lonMax, latMin, latMax)) gs) =
            {g \<in> set gs. isect (lonMin, lonMax, latMin, latMax) g}
       \<and> subseq (filter (isect (lonMin, lonMax, latMin, latMax)) gs) gs"
proof (intro conjI impI)
  show "PartialShapelyFeature_init isect gs (Some [latMin, latMax, lonMin, lonMax]) =
          Inr \<lparr>extent = [lonMin, lonMax, latMin, latMax],
               geoms = filter (isect (lonMin, lonMax, latMin, latMax)) gs\<rparr>"
    using assms by (rule init_shapely_single)
next
  assume "up (sc, cat, nm) = Some gs"
  with assms show "PartialNaturalEarthFeature_init isect cat nm sc
        (Some [latMin, latMax, lonMin, lonMax]) up =
      (Inr \<lparr>extent = [lonMin, lonMax, latMin, latMax],
            geoms = filter (isect (lonMin, lonMax, latMin, latMax)) gs,
            category = cat, name = nm, PartialNaturalEarthFeature.scale = sc\<rparr>, up)"
    by (rule init_natural_earth_single)
next
  show "set (filter (isect (lonMin, lonMax, latMin, latMax)) gs) =
      {g \<in> set gs. isect (lonMin, lonMax, latMin, latMax) g}"
    by simp
next
  show "subseq (filter (isect (lonMin, lonMax, latMin, latMax)) gs) gs"
    by simp
qed

theorem build_single_pass_witness:
  "\<not> ((110::real) < 180 \<and> (180::real) < 135)
   \<and> PartialShapelyFeature_init box_intersects sample_geoms (Some [15, 35, 110, 135]) =
       Inr \<lparr>extent = [110, 135, 15, 35],
            geoms = [(- 180, 180, 10, 20), (110, 130, 20, 30)]\<rparr>
   \<and> sample_upstream (''50m'', ''physical'', ''coastline'') = Some sample_geoms
   \<and> PartialNaturalEarthFeature_init box_intersects ''physical'' ''coastline'' ''50m''
         (Some [15, 35, 110, 135]) sample_upstream =
       (Inr \<lparr>extent = [110, 135, 15, 35],
             geoms = [(- 180, 180, 10, 20), (110, 130, 20, 30)],
             category = ''physical'', name = ''coastline'',
             PartialNaturalEarthFeature.scale = ''50m''\<rparr>, sample_upstream)
   \<and> (172, 178, 5, 8) \<notin> set (filter (box_intersects (110, 135, 15, 35)) sample_geoms)"
  using build_single_pass [of 110 135 box_intersects sample_geoms 15 35
      sample_upstream "''50m''" "''physical''" "''coastline''"]
  by (simp add: sample_geoms_def sample_upstream_def)

section \<open>Frame lemmas for the upstream store\<close>

lemma make_partial_upstream:
  "snd (PartialNaturalEarthFeature_make_partial isect self up) = up"
  by (simp add: PartialNaturalEarthFeature_make_partial_def and_then_def
      natural_earth_geometries_def Let_def split: option.splits sum.splits)

lemma init_upstream:
  "snd (PartialNaturalEarthFeature_init isect cat nm sc georange' up) = up"
  by (simp add: PartialNaturalEarthFeature_init_def make_partial_upstream split: option.splits)

lemma init_pair:
  obtains r where "PartialNaturalEarthFeature_init isect cat nm sc georange' up = (r, up)"
  using init_upstream [of isect cat nm sc georange' up]
  by (cases "PartialNaturalEarthFeature_init isect cat nm sc georange' up") simp

lemma init_natural_earth_Inr:
  assumes "PartialNaturalEarthFeature_init isect cat nm sc georange' up = (Inr f, up')"
  shows "\<exists>g gs. georange' = Some g \<and> up (sc, cat, nm) = Some gs \<and>
           partial_geoms isect (drop 2 g @ take 2 g) gs = Inr (geoms f)"
  using assms
  by (auto simp add: PartialNaturalEarthFeature_init_def
      PartialNaturalEarthFeature_make_partial_def and_then_def natural_earth_geometries_def
      split: option.splits sum.splits)

lemma init_shapely_Inr:
  assumes "PartialShapelyFeature_init isect gs georange' = Inr s"
  shows "\<exists>g. georange' = Some g \<and>
           partial_geoms isect (drop 2 g @ take 2 g) gs = Inr (geoms s)"
  using assms
  by (auto simp add: PartialShapelyFeature_init_def PartialShapelyFeature_make_partial_def
      split: option.splits sum.splits)

section \<open>Determinism\<close>

lemma init_natural_earth_key:
  assumes "up (sc, cat, nm) = up2 (sc, cat, nm)"
  shows "fst (PartialNaturalEarthFeature_init isect cat nm sc georange' up) =
         fst (PartialNaturalEarthFeature_init isect cat nm sc georange' up2)"
  using assms
  by (simp add: PartialNaturalEarthFeature_init_def PartialNaturalEarthFeature_make_partial_def
      and_then_def natural_earth_geometries_def split: option.splits sum.splits)

lemma init_natural_earth_four:
  assumes "up (sc, cat, nm) = Some gs"
  shows "PartialNaturalEarthFeature_init isect cat nm sc (Some [latMin, latMax, lonMin, lonMax]) up =
           (Inr \<lparr>extent = [lonMin, lonMax, latMin, latMax],
                 geoms = (if lonMin < 180 \<and> 180 < lonMax
                          then filter (isect (lonMin, 180, latMin, latMax)) gs @
                               filter (isect (- 180, lonMax - 360, latMin, latMax)) gs
                          else filter (isect (lonMin, lonMax, latMin, latMax)) gs),
                 category = cat, name = nm, PartialNaturalEarthFeature.scale = sc\<rparr>, up)"
proof (cases "lonMin < 180 \<and> 180 < lonMax")
  case True
  then show ?thesis
    using assms by (simp add: init_natural_earth_straddle)
next
  case False
  then show ?thesis
    using assms init_natural_earth_single [OF False, of up sc cat nm gs isect latMin latMax]
    by auto
qed

lemma init_natural_earth_unknown:
  assumes "up (sc, cat, nm) = None"
  shows "PartialNaturalEarthFeature_init isect cat nm sc (Some g) up = (Inl UpstreamError, up)"
  using assms
  by (simp add: PartialNaturalEarthFeature_init_def PartialNaturalEarthFeature_make_partial_def
      and_then_def natural_earth_geometries_def)

text \<open>
  Claim C7. The outcome of building a \<^verbatim>\<open>PartialNaturalEarthFeature\<close> is a function of the
  source, the region and the collection that the upstream store holds for that source, and
  of nothing else: two stores that agree on the source give the same outcome, whatever they
  hold elsewhere; when the store holds the collection \<open>gs\<close> for the source, the outcome for a
  region of four coordinates is the feature whose sequence is the pass, or the two passes,
  over \<open>gs\<close>, the same geometries in the same order at every call; when the store has no
  collection for the source the build raises. The build leaves the store as it found it,
  so a second build of the same source and region, run after the first or after the build
  of any other feature, gives the outcome of the first.
\<close>

theorem build_deterministic:
  "(up (sc, cat, nm) = up2 (sc, cat, nm) \<longrightarrow>
      fst (PartialNaturalEarthFeature_init isect cat nm sc georange' up) =
      fst (PartialNaturalEarthFeature_init isect cat nm sc georange' up2))
   \<and> (up (sc, cat, nm) = Some gs \<longrightarrow>
      PartialNaturalEarthFeature_init isect cat nm sc (Some [latMin, latMax, lonMin, lonMax]) up =
        (Inr \<lparr>extent = [lonMin, lonMax, latMin, latMax],
              geoms = (if lonMin < 180 \<and> 180 < lonMax
                       then filter (isect (lonMin, 180, latMin, latMax)) gs @
                            filter (isect (- 180, lonMax - 360, latMin, latMax)) gs
                       else filter (isect (lonMin, lonMax, latMin, latMax)) gs),
              category = cat, name = nm, PartialNaturalEarthFeature.scale = sc\<rparr>, up))
   \<and> (up (sc, cat, nm) = None \<longrightarrow>
      PartialNaturalEarthFeature_init isect cat nm sc (Some region) up = (Inl UpstreamError, up))
   \<and> snd (PartialNaturalEarthFeature_init isect cat nm sc georange' up) = up
   \<and> PartialNaturalEarthFeature_init isect cat nm sc georange'
         (snd (PartialNaturalEarthFeature_init isect cat nm sc georange' up)) =
       PartialNaturalEarthFeature_init isect cat nm sc georange' up
   \<and> PartialNaturalEarthFeature_init isect cat nm sc georange'
         (snd (PartialNaturalEarthFeature_init isect cat2 nm2 sc2 georange2 up)) =
       PartialNaturalEarthFeature_init isect cat nm sc georange' up
   \<and> snd (PartialNaturalEarthFeature_make_partial isect self up) = up"
proof (intro conjI impI)
  assume "up (sc, cat, nm) = up2 (sc, cat, nm)"
  then show "fst (PartialNaturalEarthFeature_init isect cat nm sc georange' up) =
      fst (PartialNaturalEarthFeature_init isect cat nm sc georange' up2)"
    by (rule init_natural_earth_key)
next
  assume "up (sc, cat, nm) = Some gs"
  then show "PartialNaturalEarthFeature_init isect cat nm sc
        (Some [latMin, latMax, lonMin, lonMax]) up =
      (Inr \<lparr>extent = [lonMin, lonMax, latMin, latMax],
            geoms = (if lonMin < 180 \<and> 180 < lonMax
                     then filter (isect (lonMin, 180, latMin, latMax)) gs @
                          filter (isect (- 180, lonMax - 360, latMin, latMax)) gs
                     else filter (isect (lonMin, lonMax, latMin, latMax)) gs),
            category = cat, name = nm, PartialNaturalEarthFeature.scale = sc\<rparr>, up)"
    by (rule init_natural_earth_four)
next
  assume "up (sc, cat, nm) = None"
  then show "PartialNaturalEarthFeature_init isect cat nm sc (Some region) up =
      (Inl UpstreamError, up)"
    by (rule init_natural_earth_unknown)
qed (simp_all add: init_upstream make_partial_upstream)

theorem build_deterministic_witness:
  "sample_upstream (''50m'', ''physical'', ''coastline'') =
     (sample_upstream((''50m'', ''cultural'', ''admin_0_boundary_lines_land'') := None))
       (''50m'', ''physical'', ''coastline'')
   \<and> sample_upstream (''50m'', ''physical'', ''coastline'') = Some sample_geoms
   \<and> fst (PartialNaturalEarthFeature_init box_intersects ''physical'' ''coastline'' ''50m''
          (Some [0, 30, 170, 200])
          (sample_upstream((''50m'', ''cultural'', ''admin_0_boundary_lines_land'') := None))) =
       Inr \<lparr>extent = [170, 200, 0, 30],
            geoms = [(- 180, 180, 10, 20), (172, 178, 5, 8), (- 180, 180, 10, 20)],
            category = ''physical'', name = ''coastline'',
            PartialNaturalEarthFeature.scale = ''50m''\<rparr>
   \<and> PartialNaturalEarthFeature_init box_intersects ''physical'' ''coastline'' ''50m''
         (Some [0, 30, 170, 200])
         (snd (PartialNaturalEarthFeature_init box_intersects ''cultural''
                 ''admin_0_boundary_lines_land'' ''50m'' (Some [15, 35, 110, 135])
                 sample_upstream)) =
       (Inr \<lparr>extent = [170, 200, 0, 30],
             geoms = [(- 180, 180, 10, 20), (172, 178, 5, 8), (- 180, 180, 10, 20)],
             category = ''physical'', name = ''coastline'',
             PartialNaturalEarthFeature.scale = ''50m''\<rparr>, sample_upstream)
   \<and> sample_upstream (''10m'', ''physical'', ''coastline'') = None
   \<and> PartialNaturalEarthFeature_init box_intersects ''physical'' ''coastline'' ''10m''
         (Some [0, 30, 170, 200]) sample_upstream = (Inl UpstreamError, sample_upstream)"
proof -
  have src: "sample_upstream (''50m'', ''physical'', ''coastline'') = Some sample_geoms"
    and unknown: "sample_upstream (''10m'', ''physical'', ''coastline'') = None"
    by (simp_all add: sample_upstream_def)
  have run: "PartialNaturalEarthFeature_init box_intersects ''physical'' ''coastline'' ''50m''
      (Some [0, 30, 170, 200]) sample_upstream =
    (Inr \<lparr>extent = [170, 200, 0, 30],
          geoms = [(- 180, 180, 10, 20), (172, 178, 5, 8), (- 180, 180, 10, 20)],
          category = ''physical'', name = ''coastline'',
          PartialNaturalEarthFeature.scale = ''50m''\<rparr>, sample_upstream)"
    using init_natural_earth_straddle [of 170 200 sample_upstream "''50m''" "''physical''"
        "''coastline''" sample_geoms box_intersects 0 30]
    by (simp add: sample_geoms_def sample_upstream_def)
  show ?thesis
    using build_deterministic [of sample_upstream "''50m''" "''physical''" "''coastline''"
        "sample_upstream((''50m'', ''cultural'', ''admin_0_boundary_lines_land'') := None)"
        box_intersects "Some [0, 30, 170, 200]" sample_geoms 0 30 170 200
        "[0, 30, 170, 200]" "''cultural''" "''admin_0_boundary_lines_land''" "''50m''"
        "Some [15, 35, 110, 135]"]
      build_deterministic [of sample_upstream "''10m''" "''physical''" "''coastline''"
        sample_upstream box_intersects "Some [0, 30, 170, 200]" _ _ _ _ _ "[0, 30, 170, 200]"]
    by (auto simp add: src unknown run)
qed

section \<open>Queries\<close>

text \<open>
  Claim C9. \<^verbatim>\<open>intersecting_geometries\<close> of a partial feature ignores its extent argument: for
  any two extents it returns the same sequence, the one stored in the feature; for a feature
  that a constructor returned this is the sequence the constructor computed from the
  collection and the region.
\<close>

theorem intersecting_geometries_ignores_extent:
  "PartialShapelyFeature_intersecting_geometries s e1 =
     PartialShapelyFeature_intersecting_geometries s e2
   \<and> PartialShapelyFeature_intersecting_geometries s e1 = geoms s
   \<and> PartialNaturalEarthFeature_intersecting_geometries f e1 =
       PartialNaturalEarthFeature_intersecting_geometries f e2
   \<and> PartialNaturalEarthFeature_intersecting_geometries f e1 = geoms f
   \<and> (PartialShapelyFeature_init isect gs georange' = Inr s \<longrightarrow>
        (\<exists>g. georange' = Some g \<and>
           partial_geoms isect (drop 2 g @ take 2 g) gs =
             Inr (PartialShapelyFeature_intersecting_geometries s e1)))
   \<and> (PartialNaturalEarthFeature_init isect cat nm sc georange' up = (Inr f, up') \<longrightarrow>
        (\<exists>g all_geoms. georange' = Some g \<and> up (sc, cat, nm) = Some all_geoms \<and>
           partial_geoms isect (drop 2 g @ take 2 g) all_geoms =
             Inr (PartialNaturalEarthFeature_intersecting_geometries f e1)))"
proof (intro conjI impI)
  assume "PartialShapelyFeature_init isect gs georange' = Inr s"
  then show "\<exists>g. georange' = Some g \<and>
      partial_geoms isect (drop 2 g @ take 2 g) gs =
        Inr (PartialShapelyFeature_intersecting_geometries s e1)"
    unfolding PartialShapelyFeature_intersecting_geometries_def by (rule init_shapely_Inr)
next
  assume "PartialNaturalEarthFeature_init isect cat nm sc georange' up = (Inr f, up')"
  then show "\<exists>g all_geoms. georange' = Some g \<and> up (sc, cat, nm) = Some all_geoms \<and>
      partial_geoms isect (drop 2 g @ take 2 g) all_geoms =
        Inr (PartialNaturalEarthFeature_intersecting_geometries f e1)"
    unfolding PartialNaturalEarthFeature_intersecting_geometries_def geometries_def
    by (rule init_natural_earth_Inr)
qed (simp_all add: PartialShapelyFeature_intersecting_geometries_def
    PartialNaturalEarthFeature_intersecting_geometries_def geometries_def)

theorem intersecting_geometries_ignores_extent_witness:
  "PartialShapelyFeature_init box_intersects sample_geoms (Some [15, 35, 110, 135]) =
     Inr \<lparr>extent = [110, 135, 15, 35], geoms = [(- 180, 180, 10, 20), (110, 130, 20, 30)]\<rparr>
   \<and> PartialShapelyFeature_intersecting_geometries
       \<lparr>extent = [110, 135, 15, 35], geoms = [(- 180, 180, 10, 20), (110, 130, 20, 30) :: box]\<rparr>
       [170, 180, 0, 5] =
     PartialShapelyFeature_intersecting_geometries
       \<lparr>extent = [110, 135, 15, 35], geoms = [(- 180, 180, 10, 20), (110, 130, 20, 30)]\<rparr>
       [110, 135, 15, 35]
   \<and> PartialNaturalEarthFeature_init box_intersects ''physical'' ''coastline'' ''50m''
         (Some [15, 35, 110, 135]) sample_upstream =
       (Inr \<lparr>extent = [110, 135, 15, 35],
             geoms = [(- 180, 180, 10, 20), (110, 130, 20, 30)],
             category = ''physical'', name = ''coastline'',
             PartialNaturalEarthFeature.scale = ''50m''\<rparr>, sample_upstream)
   \<and> PartialNaturalEarthFeature_intersecting_geometries
       \<lparr>extent = [110, 135, 15, 35],
        geoms = [(- 180, 180, 10, 20), (110, 130, 20, 30) :: box],
        category = ''physical'', name = ''coastline'',
        PartialNaturalEarthFeature.scale = ''50m''\<rparr> [170, 180, 0, 5] =
     [(- 180, 180, 10, 20), (110, 130, 20, 30)]"
proof -
  have s: "PartialShapelyFeature_init box_intersects sample_geoms (Some [15, 35, 110, 135]) =
      Inr \<lparr>extent = [110, 135, 15, 35], geoms = [(- 180, 180, 10, 20), (110, 130, 20, 30)]\<rparr>"
    using init_shapely_single [of 110 135 box_intersects sample_geoms 15 35]
    by (simp add: sample_geoms_def)
  have f: "PartialNaturalEarthFeature_init box_intersects ''physical'' ''coastline'' ''50m''
        (Some [15, 35, 110, 135]) sample_upstream =
      (Inr \<lparr>extent = [110, 135, 15, 35],
            geoms = [(- 180, 180, 10, 20), (110, 130, 20, 30)],
            category = ''physical'', name = ''coastline'',
            PartialNaturalEarthFeature.scale = ''50m''\<rparr>, sample_upstream)"
    using init_natural_earth_single [of 110 135 sample_upstream "''50m''" "''physical''"
        "''coastline''" sample_geoms box_intersects 15 35]
    by (simp add: sample_geoms_def sample_upstream_def)
  show ?thesis
    using intersecting_geometries_ignores_extent
      [of "\<lparr>extent = [110, 135, 15, 35], geoms = [(- 180, 180, 10, 20), (110, 130, 20, 30)]\<rparr>"
          "[170, 180, 0, 5]" "[110, 135, 15, 35]"
          "\<lparr>extent = [110, 135, 15, 35],
            geoms = [(- 180, 180, 10, 20), (110, 130, 20, 30)],
            category = ''physical'', name = ''coastline'',
            PartialNaturalEarthFeature.scale = ''50m''\<rparr>"
          box_intersects sample_geoms "Some [15, 35, 110, 135]"
          "''physical''" "''coastline''" "''50m''" sample_upstream sample_upstream]
    by (simp add: s f PartialShapelyFeature_intersecting_geometries_def
        PartialNaturalEarthFeature_intersecting_geometries_def geometries_def)
qed

section \<open>Map sets from Natural Earth\<close>

lemma init_natural_earth_returns:
  assumes "up (sc, cat, nm) = Some gs"
  obtains f where "PartialNaturalEarthFeature_init isect cat nm sc
      (Some [latMin, latMax, lonMin, lonMax]) up = (Inr f, up)"
proof (cases "lonMin < 180 \<and> 180 < lonMax")
  case True
  then show ?thesis
    using that assms init_natural_earth_straddle [of lonMin lonMax up sc cat nm gs isect latMin latMax]
    by simp
next
  case False
  then show ?thesis
    using that assms init_natural_earth_single [of lonMin lonMax up sc cat nm gs isect latMin latMax]
    by simp
qed

lemma from_natural_earth_returned:
  assumes "from_natural_earth isect georange' sc proj' True True land' ocean' pp up = (Inr m, up')"
  shows "(\<exists>f. PartialNaturalEarthFeature_init isect ''physical'' ''coastline'' sc georange' up =
              (Inr f, up) \<and> coastline m = Some f)
       \<and> (\<exists>f. PartialNaturalEarthFeature_init isect ''cultural'' ''admin_0_boundary_lines_land''
                sc georange' up = (Inr f, up) \<and> country m = Some f)
       \<and> (\<not> land' \<longrightarrow> land m = None) \<and> (\<not> ocean' \<longrightarrow> ocean m = None)
       \<and> province m = None \<and> city m = None \<and> county m = None
       \<and> georange m = georange' \<and> MapSet.scale m = Some sc \<and> proj m = proj'
       \<and> proj_params m = pp"
proof -
  obtain rc where rc: "PartialNaturalEarthFeature_init isect ''physical'' ''coastline'' sc
      georange' up = (rc, up)"
    by (rule init_pair)
  obtain rk where rk: "PartialNaturalEarthFeature_init isect ''cultural''
      ''admin_0_boundary_lines_land'' sc georange' up = (rk, up)"
    by (rule init_pair)
  obtain rl where rl: "PartialNaturalEarthFeature_init isect ''physical'' ''land'' sc
      georange' up = (rl, up)"
    by (rule init_pair)
  obtain ro where ro: "PartialNaturalEarthFeature_init isect ''physical'' ''ocean'' sc
      georange' up = (ro, up)"
    by (rule init_pair)
  show ?thesis
    using assms
    by (auto simp add: from_natural_earth_def and_then_def ret_def MapSet_init_def rc rk rl ro
        split: sum.splits if_splits)
qed

lemma from_natural_earth_returns:
  assumes "up (sc, ''physical'', ''coastline'') = Some gc"
    and "up (sc, ''cultural'', ''admin_0_boundary_lines_land'') = Some gk"
  shows "\<exists>m. from_natural_earth isect (Some [latMin, latMax, lonMin, lonMax]) sc proj'
             True True False False pp up = (Inr m, up)"
proof -
  obtain fc where fc: "PartialNaturalEarthFeature_init isect ''physical'' ''coastline'' sc
      (Some [latMin, latMax, lonMin, lonMax]) up = (Inr fc, up)"
    using assms(1) by (rule init_natural_earth_returns)
  obtain fk where fk: "PartialNaturalEarthFeature_init isect ''cultural''
      ''admin_0_boundary_lines_land'' sc (Some [latMin, latMax, lonMin, lonMax]) up = (Inr fk, up)"
    using assms(2) by (rule init_natural_earth_returns)
  show ?thesis
    by (simp add: from_natural_earth_def and_then_def ret_def fc fk)
qed

text \<open>
  Claim C10. When \<^verbatim>\<open>from_natural_earth\<close> is called with the coastline and country flags at
  their default \<^verbatim>\<open>True\<close> and returns, the \<^verbatim>\<open>coastline\<close> of the map set is the partial feature
  built for \<^verbatim>\<open>'physical'\<close>/\<^verbatim>\<open>'coastline'\<close> at the given scale and georange, its \<^verbatim>\<open>country\<close> the
  one built for \<^verbatim>\<open>'cultural'\<close>/\<^verbatim>\<open>'admin_0_boundary_lines_land'\<close>; \<^verbatim>\<open>land\<close> and \<^verbatim>\<open>ocean\<close> are
  \<^verbatim>\<open>None\<close> unless their flag is set; \<^verbatim>\<open>province\<close>, \<^verbatim>\<open>city\<close> and \<^verbatim>\<open>county\<close> are \<^verbatim>\<open>None\<close>.
  With all four flags at their defaults the call does return, for a georange of four
  coordinates, when the upstream store has the coastline and the border collection.
\<close>

theorem from_natural_earth_fields:
  "(from_natural_earth isect georange' sc proj' True True land' ocean' pp up = (Inr m, up') \<longrightarrow>
      (\<exists>f. PartialNaturalEarthFeature_init isect ''physical'' ''coastline'' sc georange' up =
              (Inr f, up) \<and> coastline m = Some f)
      \<and> (\<exists>f. PartialNaturalEarthFeature_init isect ''cultural'' ''admin_0_boundary_lines_land''
                sc georange' up = (Inr f, up) \<and> country m = Some f)
      \<and> (\<not> land' \<longrightarrow> land m = None) \<and> (\<not> ocean' \<longrightarrow> ocean m = None)
      \<and> province m = None \<and> city m = None \<and> county m = None
      \<and> georange m = georange' \<and> MapSet.scale m = Some sc \<and> proj m = proj'
      \<and> proj_params m = pp)
   \<and> (up (sc, ''physical'', ''coastline'') = Some gc \<and>
      up (sc, ''cultural'', ''admin_0_boundary_lines_land'') = Some gk \<longrightarrow>
      (\<exists>m. from_natural_earth isect (Some [latMin, latMax, lonMin, lonMax]) sc proj'
              True True False False pp up = (Inr m, up)))"
proof (rule conjI; rule impI)
  assume "from_natural_earth isect georange' sc proj' True True land' ocean' pp up = (Inr m, up')"
  then show "(\<exists>f. PartialNaturalEarthFeature_init isect ''physical'' ''coastline'' sc georange' up =
              (Inr f, up) \<and> coastline m = Some f)
      \<and> (\<exists>f. PartialNaturalEarthFeature_init isect ''cultural'' ''admin_0_boundary_lines_land''
                sc georange' up = (Inr f, up) \<and> country m = Some f)
      \<and> (\<not> land' \<longrightarrow> land m = None) \<and> (\<not> ocean' \<longrightarrow> ocean m = None)
      \<and> province m = None \<and> city m = None \<and> county m = None
      \<and> georange m = georange' \<and> MapSet.scale m = Some sc \<and> proj m = proj'
      \<and> proj_params m = pp"
    by (rule from_natural_earth_returned)
next
  assume "up (sc, ''physical'', ''coastline'') = Some gc \<and>
      up (sc, ''cultural'', ''admin_0_boundary_lines_land'') = Some gk"
  then have "up (sc, ''physical'', ''coastline'') = Some gc"
    and "up (sc, ''cultural'', ''admin_0_boundary_lines_land'') = Some gk"
    by simp_all
  then show "\<exists>m. from_natural_earth isect (Some [latMin, latMax, lonMin, lonMax]) sc proj'
      True True False False pp up = (Inr m, up)"
    by (rule from_natural_earth_returns)
qed

lemma sample_coastline:
  "PartialNaturalEarthFeature_init box_intersects ''physical'' ''coastline'' ''50m''
      (Some [15, 35, 110, 135]) sample_upstream =
    (Inr \<lparr>extent = [110, 135, 15, 35],
          geoms = [(- 180, 180, 10, 20), (110, 130, 20, 30)],
          category = ''physical'', name = ''coastline'',
          PartialNaturalEarthFeature.scale = ''50m''\<rparr>, sample_upstream)"
  using init_natural_earth_single [of 110 135 sample_upstream "''50m''" "''physical''"
      "''coastline''" sample_geoms box_intersects 15 35]
  by (simp add: sample_geoms_def sample_upstream_def)

lemma sample_country:
  "PartialNaturalEarthFeature_init box_intersects ''cultural'' ''admin_0_boundary_lines_land''
      ''50m'' (Some [15, 35, 110, 135]) sample_upstream =
    (Inr \<lparr>extent = [110, 135, 15, 35],
          geoms = [(121, 122, 21, 26)],
          category = ''cultural'', name = ''admin_0_boundary_lines_land'',
          PartialNaturalEarthFeature.scale = ''50m''\<rparr>, sample_upstream)"
  using init_natural_earth_single [of 110 135 sample_upstream "''50m''" "''cultural''"
      "''admin_0_boundary_lines_land''" sample_borders box_intersects 15 35]
  by (simp add: sample_borders_def sample_upstream_def)

lemma sample_from_natural_earth:
  "from_natural_earth box_intersects (Some [15, 35, 110, 135]) ''50m'' (Some ''P'')
      True True False False None sample_upstream = (Inr sample_mapset, sample_upstream)"
  by (simp add: from_natural_earth_def and_then_def ret_def MapSet_init_def sample_coastline
      sample_country sample_mapset_def)

theorem from_natural_earth_fields_witness:
  "sample_upstream (''50m'', ''physical'', ''coastline'') = Some sample_geoms
   \<and> sample_upstream (''50m'', ''cultural'', ''admin_0_boundary_lines_land'') = Some sample_borders
   \<and> from_natural_earth box_intersects (Some [15, 35, 110, 135]) ''50m'' (Some ''P'')
      True True False False None sample_upstream = (Inr sample_mapset, sample_upstream)
   \<and> map_option geoms (coastline sample_mapset) =
       Some [(- 180, 180, 10, 20), (110, 130, 20, 30)]
   \<and> map_option category (country sample_mapset) = Some ''cultural''
   \<and> land sample_mapset = None \<and> ocean sample_mapset = None
   \<and> province sample_mapset = None \<and> city sample_mapset = None \<and> county sample_mapset = None"
proof -
  have src: "sample_upstream (''50m'', ''physical'', ''coastline'') = Some sample_geoms"
    "sample_upstream (''50m'', ''cultural'', ''admin_0_boundary_lines_land'') = Some sample_borders"
    by (simp_all add: sample_upstream_def)
  have fields: "map_option geoms (coastline sample_mapset) =
        Some [(- 180, 180, 10, 20), (110, 130, 20, 30)]"
    "map_option category (country sample_mapset) = Some ''cultural''"
    "land sample_mapset = None" "ocean sample_mapset = None"
    "province sample_mapset = None" "city sample_mapset = None" "county sample_mapset = None"
    by (simp_all add: sample_mapset_def)
  show ?thesis
    using from_natural_earth_fields [of box_intersects "Some [15, 35, 110, 135]" "''50m''"
        "Some ''P''" False False None sample_upstream sample_mapset sample_upstream
        sample_geoms sample_borders 15 35 110 135]
    by (simp add: sample_from_natural_earth src fields)
qed

section \<open>Regions that are not well formed\<close>

text \<open>
  Claim C5, counterexample. The region of the claim, \<^verbatim>\<open>latMin=10, latMax=5\<close>: the constructor
  returns a feature and raises nothing.
\<close>

theorem build_inverted_region_counterexample:
  "(5::real) \<le> 10
   \<and> PartialNaturalEarthFeature_init box_intersects ''physical'' ''coastline'' ''50m''
         (Some [10, 5, 110, 135]) sample_upstream =
       (Inr \<lparr>extent = [110, 135, 10, 5],
             geoms = [(- 180, 180, 10, 20)],
             category = ''physical'', name = ''coastline'',
             PartialNaturalEarthFeature.scale = ''50m''\<rparr>, sample_upstream)
   \<and> PartialShapelyFeature_init box_intersects sample_geoms (Some [10, 5, 110, 135]) =
       Inr \<lparr>extent = [110, 135, 10, 5], geoms = [(- 180, 180, 10, 20)]\<rparr>"
  by (simp add: init_natural_earth_single init_shapely_single sample_upstream_def
      sample_geoms_def)

text \<open>
  Claim C5, as amended. Neither constructor checks the order of the bounds. For a region with
  \<open>latMin \<ge> latMax\<close> or \<open>lonMin \<ge> lonMax\<close> it returns a feature: the extent is the region as
  given and the geometries are those of the pass, or of the two passes, against it.
\<close>

theorem build_accepts_malformed_region:
  assumes "latMax \<le> latMin \<or> lonMax \<le> lonMin"
  shows "PartialShapelyFeature_init isect gs (Some [latMin, latMax, lonMin, lonMax]) =
           Inr \<lparr>extent = [lonMin, lonMax, latMin, latMax],
                geoms = (if lonMin < 180 \<and> 180 < lonMax
                         then filter (isect (lonMin, 180, latMin, latMax)) gs @
                              filter (isect (- 180, lonMax - 360, latMin, latMax)) gs
                         else filter (isect (lonMin, lonMax, latMin, latMax)) gs)\<rparr>
       \<and> (up (sc, cat, nm) = Some gs \<longrightarrow>
            PartialNaturalEarthFeature_init isect cat nm sc
                (Some [latMin, latMax, lonMin, lonMax]) up =
              (Inr \<lparr>extent = [lonMin, lonMax, latMin, latMax],
                    geoms = (if lonMin < 180 \<and> 180 < lonMax
                             then filter (isect (lonMin, 180, latMin, latMax)) gs @
                                  filter (isect (- 180, lonMax - 360, latMin, latMax)) gs
                             else filter (isect (lonMin, lonMax, latMin, latMax)) gs),
                    category = cat, name = nm, PartialNaturalEarthFeature.scale = sc\<rparr>, up))"
proof (cases "lonMin < 180 \<and> 180 < lonMax")
  case True
  then show ?thesis
    by (simp add: init_shapely_straddle init_natural_earth_straddle)
next
  case False
  then show ?thesis
    using init_shapely_single [OF False, of isect gs latMin latMax]
      init_natural_earth_single [OF False, of up sc cat nm gs isect latMin latMax]
    by auto
qed

theorem build_accepts_malformed_region_witness:
  "((5::real) \<le> 10 \<or> (135::real) \<le> 110)
   \<and> PartialShapelyFeature_init box_intersects sample_borders (Some [10, 5, 110, 135]) =
       Inr \<lparr>extent = [110, 135, 10, 5], geoms = []\<rparr>
   \<and> PartialNaturalEarthFeature_init box_intersects ''cultural''
         ''admin_0_boundary_lines_land'' ''50m'' (Some [10, 5, 110, 135]) sample_upstream =
       (Inr \<lparr>extent = [110, 135, 10, 5], geoms = [],
             category = ''cultural'', name = ''admin_0_boundary_lines_land'',
             PartialNaturalEarthFeature.scale = ''50m''\<rparr>, sample_upstream)"
  using build_accepts_malformed_region [of 5 10 135 110 box_intersects sample_borders
      sample_upstream "''50m''" "''cultural''" "''admin_0_boundary_lines_land''"]
  by (simp add: sample_borders_def sample_upstream_def)

section \<open>The invariant of a stored sequence\<close>

text \<open>
  Claim C4, counterexample. The collection holds each geometry once; the feature built for
  the region \<open>170 \<le> lon \<le> 200\<close>, \<open>0 \<le> lat \<le> 30\<close> holds the geometry that spans the globe
  twice, once from each pass.
\<close>

theorem stored_sequence_duplicates_counterexample:
  "distinct sample_geoms
   \<and> fst (PartialNaturalEarthFeature_init box_intersects ''physical'' ''coastline'' ''50m''
         (Some [0, 30, 170, 200]) sample_upstream) =
       Inr \<lparr>extent = [170, 200, 0, 30],
            geoms = [(- 180, 180, 10, 20), (172, 178, 5, 8), (- 180, 180, 10, 20)],
            category = ''physical'', name = ''coastline'',
            PartialNaturalEarthFeature.scale = ''50m''\<rparr>
   \<and> \<not> distinct [(- 180, 180, 10, 20), (172, 178, 5, 8), (- 180, 180, 10, 20) :: box]"
  by (simp add: init_natural_earth_straddle sample_upstream_def sample_geoms_def)

text \<open>
  Claim C4, as amended. Every geometry in the sequence of a feature that a constructor
  returned is a geometry of the collection that intersects the region of the feature; for a
  region that straddles the antimeridian this means one of the two sub-regions
  \<open>[lonMin, 180]\<close> and \<open>[-180, lonMax - 360]\<close>. The duplicates of the split stay: when a
  geometry of the collection intersects both sub-regions, the sequence is not distinct.
\<close>

theorem stored_geometries_intersect_region:
  "(PartialShapelyFeature_init isect gs (Some [latMin, latMax, lonMin, lonMax]) = Inr s \<and>
      g \<in> set (geoms s) \<longrightarrow>
      g \<in> set gs \<and>
      (if lonMin < 180 \<and> 180 < lonMax
       then isect (lonMin, 180, latMin, latMax) g \<or> isect (- 180, lonMax - 360, latMin, latMax) g
       else isect (lonMin, lonMax, latMin, latMax) g))
   \<and> (up (sc, cat, nm) = Some gs \<and>
      PartialNaturalEarthFeature_init isect cat nm sc (Some [latMin, latMax, lonMin, lonMax]) up =
        (Inr f, up') \<and>
      g \<in> set (geoms f) \<longrightarrow>
      g \<in> set gs \<and>
      (if lonMin < 180 \<and> 180 < lonMax
       then isect (lonMin, 180, latMin, latMax) g \<or> isect (- 180, lonMax - 360, latMin, latMax) g
       else isect (lonMin, lonMax, latMin, latMax) g))
   \<and> (PartialShapelyFeature_init isect gs (Some [latMin, latMax, lonMin, lonMax]) = Inr s \<and>
      lonMin < 180 \<and> 180 < lonMax \<and> g \<in> set gs \<and>
      isect (lonMin, 180, latMin, latMax) g \<and> isect (- 180, lonMax - 360, latMin, latMax) g \<longrightarrow>
      \<not> distinct (geoms s))
   \<and> (up (sc, cat, nm) = Some gs \<and>
      PartialNaturalEarthFeature_init isect cat nm sc (Some [latMin, latMax, lonMin, lonMax]) up =
        (Inr f, up') \<and>
      lonMin < 180 \<and> 180 < lonMax \<and> g \<in> set gs \<and>
      isect (lonMin, 180, latMin, latMax) g \<and> isect (- 180, lonMax - 360, latMin, latMax) g \<longrightarrow>
      \<not> distinct (geoms f))"
proof (cases "lonMin < 180 \<and> 180 < lonMax")
  case True
  then have lo: "lonMin < 180" and hi: "180 < lonMax"
    by simp_all
  have shapely: "PartialShapelyFeature_init isect gs (Some [latMin, latMax, lonMin, lonMax]) =
      Inr \<lparr>extent = [lonMin, lonMax, latMin, latMax],
           geoms = filter (isect (lonMin, 180, latMin, latMax)) gs @
                   filter (isect (- 180, lonMax - 360, latMin, latMax)) gs\<rparr>"
    using lo hi by (rule init_shapely_straddle)
  have natural: "up (sc, cat, nm) = Some gs \<Longrightarrow>
      PartialNaturalEarthFeature_init isect cat nm sc (Some [latMin, latMax, lonMin, lonMax]) up =
      (Inr \<lparr>extent = [lonMin, lonMax, latMin, latMax],
            geoms = filter (isect (lonMin, 180, latMin, latMax)) gs @
                    filter (isect (- 180, lonMax - 360, latMin, latMax)) gs,
            category = cat, name = nm, PartialNaturalEarthFeature.scale = sc\<rparr>, up)"
    using lo hi by (rule init_natural_earth_straddle)
  show ?thesis
    using True natural by (auto simp add: shapely)
next
  case False
  have shapely: "PartialShapelyFeature_init isect gs (Some [latMin, latMax, lonMin, lonMax]) =
      Inr \<lparr>extent = [lonMin, lonMax, latMin, latMax],
           geoms = filter (isect (lonMin, lonMax, latMin, latMax)) gs\<rparr>"
    using False by (rule init_shapely_single)
  have natural: "up (sc, cat, nm) = Some gs \<Longrightarrow>
      PartialNaturalEarthFeature_init isect cat nm sc (Some [latMin, latMax, lonMin, lonMax]) up =
      (Inr \<lparr>extent = [lonMin, lonMax, latMin, latMax],
            geoms = filter (isect (lonMin, lonMax, latMin, latMax)) gs,
            category = cat, name = nm, PartialNaturalEarthFeature.scale = sc\<rparr>, up)"
    using False by (rule init_natural_earth_single)
  show ?thesis
    using False natural by (auto simp add: shapely)
qed

theorem stored_geometries_intersect_region_witness:
  "PartialShapelyFeature_init box_intersects sample_geoms (Some [0, 30, 170, 200]) =
     Inr \<lparr>extent = [170, 200, 0, 30],
          geoms = [(- 180, 180, 10, 20), (172, 178, 5, 8), (- 180, 180, 10, 20)]\<rparr>
   \<and> (172, 178, 5, 8) \<in> set [(- 180, 180, 10, 20), (172, 178, 5, 8), (- 180, 180, 10, 20) :: box]
   \<and> box_intersects (170, 180, 0, 30) (172, 178, 5, 8)
   \<and> sample_upstream (''50m'', ''physical'', ''coastline'') = Some sample_geoms
   \<and> PartialNaturalEarthFeature_init box_intersects ''physical'' ''coastline'' ''50m''
         (Some [15, 35, 110, 135]) sample_upstream =
       (Inr \<lparr>extent = [110, 135, 15, 35],
             geoms = [(- 180, 180, 10, 20), (110, 130, 20, 30)],
             category = ''physical'', name = ''coastline'',
             PartialNaturalEarthFeature.scale = ''50m''\<rparr>, sample_upstream)
   \<and> box_intersects (110, 135, 15, 35) (110, 130, 20, 30)
   \<and> (- 180, 180, 10, 20) \<in> set sample_geoms
   \<and> box_intersects (170, 180, 0, 30) (- 180, 180, 10, 20)
   \<and> box_intersects (- 180, 200 - 360, 0, 30) (- 180, 180, 10, 20)
   \<and> \<not> distinct [(- 180, 180, 10, 20), (172, 178, 5, 8), (- 180, 180, 10, 20) :: box]"
proof -
  have a: "sample_upstream (''50m'', ''physical'', ''coastline'') = Some sample_geoms"
    by (simp add: sample_upstream_def)
  have b: "PartialShapelyFeature_init box_intersects sample_geoms (Some [0, 30, 170, 200]) =
      Inr \<lparr>extent = [170, 200, 0, 30],
           geoms = [(- 180, 180, 10, 20), (172, 178, 5, 8), (- 180, 180, 10, 20)]\<rparr>"
    using init_shapely_straddle [of 170 200 box_intersects sample_geoms 0 30]
    by (simp add: sample_geoms_def)
  have c: "(- 180, 180, 10, 20) \<in> set sample_geoms"
    by (simp add: sample_geoms_def)
  show ?thesis
    using stored_geometries_intersect_region [of box_intersects sample_geoms 0 30 170 200
      "\<lparr>extent = [170, 200, 0, 30],
        geoms = [(- 180, 180, 10, 20), (172, 178, 5, 8), (- 180, 180, 10, 20)]\<rparr>"
      "(172, 178, 5, 8)"]
    stored_geometries_intersect_region [of box_intersects sample_geoms 15 35 110 135 _
      "(110, 130, 20, 30)" sample_upstream "''50m''" "''physical''" "''coastline''"
      "\<lparr>extent = [110, 135, 15, 35],
        geoms = [(- 180, 180, 10, 20), (110, 130, 20, 30)],
        category = ''physical'', name = ''coastline'',
        PartialNaturalEarthFeature.scale = ''50m''\<rparr>" sample_upstream]
    stored_geometries_intersect_region [of box_intersects sample_geoms 0 30 170 200
      "\<lparr>extent = [170, 200, 0, 30],
        geoms = [(- 180, 180, 10, 20), (172, 178, 5, 8), (- 180, 180, 10, 20)]\<rparr>"
      "(- 180, 180, 10, 20)"]
  by (simp add: a b c sample_coastline)
qed

section \<open>Saving and loading a map set\<close>

lemma save_writable:
  assumes "filename \<notin> unwritable fs"
  shows "save pickle_dump m filename fs =
           ((case snd (pickle_dump (PyMapSet m)) of None \<Rightarrow> Inr () | Some e \<Rightarrow> Inl e),
            fs\<lparr>files := (files fs)(filename \<mapsto> fst (pickle_dump (PyMapSet m)))\<rparr>)"
  using assms
  by (simp add: save_def and_then_def open_wb_def split: prod.splits)

lemma save_unwritable:
  assumes "filename \<in> unwritable fs"
  shows "save pickle_dump m filename fs = (Inl PermissionError, fs)"
  using assms
  by (simp add: save_def and_then_def open_wb_def)

text \<open>
  Claim C3. When \<^verbatim>\<open>save\<close> has written a map set to a path, \<^verbatim>\<open>load\<close> of that path returns an
  equal map set: the same georange, the same features, each with the same extent, source
  and geometry sequence. \<^verbatim>\<open>pickle\<close> is a parameter; what is asked of it is that it decodes
  the bytes it wrote for this map set to this map set. Whatever the path held before is
  replaced.
\<close>

theorem load_save_roundtrip:
  assumes "filename \<notin> unwritable fs"
    and "pickle_dump (PyMapSet m) = (bytes, None)"
    and "pickle_load bytes = Inr (PyMapSet m)"
  shows "save pickle_dump m filename fs = (Inr (), fs\<lparr>files := (files fs)(filename \<mapsto> bytes)\<rparr>)
       \<and> load pickle_load filename (snd (save pickle_dump m filename fs)) = Inr (PyMapSet m)"
  using assms
  by (simp add: save_writable load_def)

theorem load_save_roundtrip_witness:
  "''cache.pkl'' \<notin> unwritable sample_fs
   \<and> sample_pickle_dump (PyMapSet sample_mapset) = (''M.'', None)
   \<and> sample_pickle_load ''M.'' = Inr (PyMapSet sample_mapset)
   \<and> fst (save sample_pickle_dump sample_mapset ''cache.pkl'' sample_fs) = Inr ()
   \<and> load sample_pickle_load ''cache.pkl''
       (snd (save sample_pickle_dump sample_mapset ''cache.pkl'' sample_fs)) =
     Inr (PyMapSet sample_mapset)"
proof -
  have a: "''cache.pkl'' \<notin> unwritable sample_fs"
    by (simp add: sample_fs_def)
  have b: "sample_pickle_dump (PyMapSet sample_mapset) = (''M.'', None)"
    by (simp add: sample_pickle_dump_def)
  have c: "sample_pickle_load ''M.'' = Inr (PyMapSet sample_mapset)"
    by (simp add: sample_pickle_load_def)
  show ?thesis
    using load_save_roundtrip [of "''cache.pkl''" sample_fs sample_pickle_dump sample_mapset
        "''M.''" sample_pickle_load]
    by (auto simp add: a b c)
qed

text \<open>
  Claim C6, counterexample. \<^verbatim>\<open>cache.pkl\<close> holds an earlier cache. Saving a map set that
  \<^verbatim>\<open>pickle.dump\<close> rejects fails, and afterwards the path exists, holds neither the earlier
  content nor a complete new one, but the empty file \<^verbatim>\<open>open(..., 'wb')\<close> made, and \<^verbatim>\<open>load\<close>
  of it fails where it succeeded before.
\<close>

theorem save_failure_counterexample:
  "files sample_fs ''cache.pkl'' = Some ''M.''
   \<and> load sample_pickle_load ''cache.pkl'' sample_fs = Inr (PyMapSet sample_mapset)
   \<and> fst (save sample_pickle_dump (sample_mapset\<lparr>proj_params := Some ()\<rparr>) ''cache.pkl''
            sample_fs) = Inl PicklingError
   \<and> files (snd (save sample_pickle_dump (sample_mapset\<lparr>proj_params := Some ()\<rparr>)
                   ''cache.pkl'' sample_fs)) ''cache.pkl'' = Some []
   \<and> load sample_pickle_load ''cache.pkl''
       (snd (save sample_pickle_dump (sample_mapset\<lparr>proj_params := Some ()\<rparr>)
               ''cache.pkl'' sample_fs)) = Inl UnpicklingError"
proof -
  have a: "''cache.pkl'' \<notin> unwritable sample_fs"
    by (simp add: sample_fs_def)
  have b: "sample_pickle_dump (PyMapSet (sample_mapset\<lparr>proj_params := Some ()\<rparr>)) =
      ([], Some PicklingError)"
    by (simp add: sample_pickle_dump_def sample_mapset_def)
  have c: "files sample_fs ''cache.pkl'' = Some ''M.''"
    by (simp add: sample_fs_def)
  show ?thesis
    by (simp add: save_writable [OF a] b c load_def sample_pickle_load_def)
qed

text \<open>
  Claim C6, as amended. \<^verbatim>\<open>save\<close> writes in place. When the path cannot be opened for writing
  it fails and the file system is as before. Otherwise it succeeds or fails as
  \<^verbatim>\<open>pickle.dump\<close> does, and in both cases the path then holds exactly the bytes
  \<^verbatim>\<open>pickle.dump\<close> wrote, the earlier content being gone: the complete new content after a
  success, what was written before the exception after a failure. No other path changes.
\<close>

theorem save_writes_in_place:
  "(filename \<in> unwritable fs \<longrightarrow> save pickle_dump m filename fs = (Inl PermissionError, fs))
   \<and> (filename \<notin> unwritable fs \<longrightarrow>
        fst (save pickle_dump m filename fs) =
          (case snd (pickle_dump (PyMapSet m)) of None \<Rightarrow> Inr () | Some e \<Rightarrow> Inl e)
        \<and> files (snd (save pickle_dump m filename fs)) filename =
            Some (fst (pickle_dump (PyMapSet m)))
        \<and> load pickle_load filename (snd (save pickle_dump m filename fs)) =
            pickle_load (fst (pickle_dump (PyMapSet m))))
   \<and> (path \<noteq> filename \<longrightarrow>
        files (snd (save pickle_dump m filename fs)) path = files fs path)
   \<and> unwritable (snd (save pickle_dump m filename fs)) = unwritable fs"
proof (cases "filename \<in> unwritable fs")
  case True
  then show ?thesis
    by (simp add: save_unwritable)
next
  case False
  then show ?thesis
    by (simp add: save_writable load_def)
qed

theorem save_writes_in_place_witness:
  "''locked.pkl'' \<in> unwritable sample_fs
   \<and> save sample_pickle_dump sample_mapset ''locked.pkl'' sample_fs =
       (Inl PermissionError, sample_fs)
   \<and> ''new.pkl'' \<notin> unwritable sample_fs
   \<and> fst (save sample_pickle_dump sample_mapset ''new.pkl'' sample_fs) = Inr ()
   \<and> files (snd (save sample_pickle_dump sample_mapset ''new.pkl'' sample_fs)) ''new.pkl'' =
       Some ''M.''
   \<and> ''cache.pkl'' \<noteq> ''new.pkl''
   \<and> files (snd (save sample_pickle_dump sample_mapset ''new.pkl'' sample_fs)) ''cache.pkl'' =
       Some ''M.''"
proof -
  have a: "''locked.pkl'' \<in> unwritable sample_fs" and b: "''new.pkl'' \<notin> unwritable sample_fs"
    and c: "files sample_fs ''cache.pkl'' = Some ''M.''"
    by (simp_all add: sample_fs_def)
  have d: "sample_pickle_dump (PyMapSet sample_mapset) = (''M.'', None)"
    by (simp add: sample_pickle_dump_def)
  show ?thesis
    using save_writes_in_place [of "''locked.pkl''" sample_fs sample_pickle_dump sample_mapset
        sample_pickle_load "''cache.pkl''"]
      save_writes_in_place [of "''new.pkl''" sample_fs sample_pickle_dump sample_mapset
        sample_pickle_load "''cache.pkl''"]
    by (simp add: a b c d)
qed

text \<open>
  Claim C8, counterexample. \<^verbatim>\<open>none.pkl\<close> holds the bytes \<^verbatim>\<open>N.\<close>, which are not a serialised
  map set. \<^verbatim>\<open>load\<close> does not fail on them: it returns \<^verbatim>\<open>None\<close>.
\<close>

theorem load_other_pickle_counterexample:
  "files sample_fs ''none.pkl'' = Some ''N.''
   \<and> sample_pickle_load ''N.'' \<noteq> Inr (PyMapSet sample_mapset)
   \<and> load sample_pickle_load ''none.pkl'' sample_fs = Inr PyNone"
  by (simp add: load_def sample_fs_def sample_pickle_load_def)

text \<open>
  Claim C8, as amended. \<^verbatim>\<open>load\<close> fails with FileNotFoundError when the path does not exist and
  returns nothing then. When the path exists the outcome is that of \<^verbatim>\<open>pickle.load\<close> on the
  bytes of the file: its exception when it raises, and otherwise the object it built,
  which is returned without a check that it is a map set.
\<close>

theorem load_outcomes:
  "(files fs filename = None \<longrightarrow> load pickle_load filename fs = Inl FileNotFoundError)
   \<and> (files fs filename = Some bytes \<longrightarrow> load pickle_load filename fs = pickle_load bytes)
   \<and> (files fs filename = Some bytes \<and> pickle_load bytes = Inl e \<longrightarrow>
        load pickle_load filename fs = Inl e)"
  by (simp add: load_def)

theorem load_outcomes_witness:
  "files sample_fs ''missing.pkl'' = None
   \<and> load sample_pickle_load ''missing.pkl'' sample_fs = Inl FileNotFoundError
   \<and> files sample_fs ''garbage.pkl'' = Some ''xyz''
   \<and> sample_pickle_load ''xyz'' = Inl UnpicklingError
   \<and> load sample_pickle_load ''garbage.pkl'' sample_fs = Inl UnpicklingError
   \<and> files sample_fs ''cache.pkl'' = Some ''M.''
   \<and> load sample_pickle_load ''cache.pkl'' sample_fs = Inr (PyMapSet sample_mapset)"
proof -
  have a: "files sample_fs ''missing.pkl'' = None"
    and b: "files sample_fs ''garbage.pkl'' = Some ''xyz''"
    and c: "files sample_fs ''cache.pkl'' = Some ''M.''"
    by (simp_all add: sample_fs_def)
  have d: "sample_pickle_load ''xyz'' = Inl UnpicklingError"
    and e: "sample_pickle_load ''M.'' = Inr (PyMapSet sample_mapset)"
    by (simp_all add: sample_pickle_load_def)
  show ?thesis
    using load_outcomes [of sample_fs "''missing.pkl''" sample_pickle_load]
      load_outcomes [of sample_fs "''garbage.pkl''" sample_pickle_load "''xyz''" UnpicklingError]
      load_outcomes [of sample_fs "''cache.pkl''" sample_pickle_load "''M.''"]
    by (simp add: a b c d e)
qed

end
